theory Spec2Isabelle
  imports Main
begin

section \<open>JavaScript values used by blockchain.js\<close>

text \<open>
  The star data a caller submits and the decoded body of a block are JSON values.
  \<open>JUndefined\<close> is what reading a missing property gives.
\<close>

datatype json =
    JUndefined
  | JNull
  | JString string
  | JNumber int
  | JObject "(string \<times> json) list"

text \<open>
  A number as the code computes with it: an integer, or NaN (\<open>None\<close>). Every comparison
  with NaN is false. Integers are exact here; the doubles of JavaScript agree with them up to
  \<open>2 ^ 53\<close>, far beyond any clock reading in seconds.
\<close>

type_synonym number = "int option"

subsection \<open>Number.prototype.toString for integers\<close>

definition digit_char :: "nat \<Rightarrow> char" where
  "digit_char d = ''0123456789'' ! d"

function show_nat :: "nat \<Rightarrow> string" where
  "show_nat n = (if n < 10 then [digit_char n] else show_nat (n div 10) @ [digit_char (n mod 10)])"
  by pat_completeness auto
termination
  by (relation "measure (\<lambda>n. n)") auto

declare show_nat.simps [simp del]

definition show_int :: "int \<Rightarrow> string" where
  "show_int i = (if i < 0 then CHR ''-'' # show_nat (nat (- i)) else show_nat (nat i))"

text \<open>
  \<open>new Date().getTime().toString().slice(0, -3)\<close>: the clock in milliseconds, printed, with
  the last three characters dropped. \<open>slice(0, -3)\<close> of a string shorter than three characters
  is the empty string, which the truncating subtraction on \<open>nat\<close> gives too. A clock reading
  and a height are integers below \<open>10 ^ 21\<close>, which \<open>toString\<close> prints in plain decimal.
\<close>

definition seconds_string :: "int \<Rightarrow> string" where
  "seconds_string now = (let s = show_int now in take (length s - 3) s)"

subsection \<open>String.prototype.split and parseInt\<close>

text \<open>\<open>message.split(':')\<close>: the fields between colons; never the empty list.\<close>

fun split_colon :: "string \<Rightarrow> string list" where
  "split_colon [] = [[]]"
| "split_colon (c # cs) =
     (if c = CHR '':'' then [] # split_colon cs
      else (case split_colon cs of
              [] \<Rightarrow> [[c]]
            | f # fs \<Rightarrow> (c # f) # fs))"

text \<open>\<open>xs[i]\<close> on an array: \<open>undefined\<close> (\<open>None\<close>) outside the array.\<close>

definition index :: "'a list \<Rightarrow> int \<Rightarrow> 'a option" where
  "index xs i = (if 0 \<le> i \<and> nat i < length xs then Some (xs ! nat i) else None)"

definition is_space :: "char \<Rightarrow> bool" where
  "is_space c = (c \<in> set [CHR '' '', CHR 0x09, CHR 0x0A, CHR 0x0B, CHR 0x0C, CHR 0x0D])"

definition digit_value :: "char \<Rightarrow> nat option" where
  "digit_value c =
     (let k = of_char c :: nat in
      if 48 \<le> k \<and> k \<le> 57 then Some (k - 48)
      else if 97 \<le> k \<and> k \<le> 122 then Some (k - 87)
      else if 65 \<le> k \<and> k \<le> 90 then Some (k - 55)
      else None)"

definition is_digit :: "nat \<Rightarrow> char \<Rightarrow> bool" where
  "is_digit R c = (case digit_value c of None \<Rightarrow> False | Some d \<Rightarrow> d < R)"

definition radix_value :: "nat \<Rightarrow> string \<Rightarrow> nat" where
  "radix_value R Z = foldl (\<lambda>acc c. acc * R + the (digit_value c)) 0 Z"

text \<open>
  \<open>parseInt(s)\<close> with no radix (ECMAScript 19.2.5): skip leading white space, read a sign,
  switch to radix 16 after a \<open>0x\<close> or \<open>0X\<close> prefix, take the longest prefix of digits; NaN
  when that prefix is empty. Strings are ASCII here, so the white space is the six ASCII
  characters that count as such.
\<close>

definition parseInt :: "string \<Rightarrow> number" where
  "parseInt inputString =
     (let S = dropWhile is_space inputString;
          sign = (if S \<noteq> [] \<and> hd S = CHR ''-'' then - 1 else 1 :: int);
          S1 = (if S \<noteq> [] \<and> (hd S = CHR ''+'' \<or> hd S = CHR ''-'') then tl S else S);
          hex = (take 2 S1 = ''0x'' \<or> take 2 S1 = ''0X'');
          R = (if hex then 16 else 10 :: nat);
          S2 = (if hex then drop 2 S1 else S1);
          Z = takeWhile (is_digit R) S2
      in if Z = [] then None else Some (sign * int (radix_value R Z)))"

text \<open>
  \<open>parseInt(message.split(':')[1])\<close>: with fewer than two fields the argument is
  \<open>undefined\<close>, which \<open>parseInt\<close> reads as the string "undefined".
\<close>

definition message_time :: "string \<Rightarrow> number" where
  "message_time message =
     (case index (split_colon message) 1 of
        None \<Rightarrow> parseInt ''undefined''
      | Some field \<Rightarrow> parseInt field)"

text \<open>\<open>a - b >= 300\<close> on numbers: false as soon as one side is NaN.\<close>

definition elapsed_ge_300 :: "number \<Rightarrow> number \<Rightarrow> bool" where
  "elapsed_ge_300 currentTime time =
     (case (currentTime, time) of
        (Some c, Some t) \<Rightarrow> c - t \<ge> 300
      | _ \<Rightarrow> False)"

section \<open>Blocks and the libraries the class calls\<close>

text \<open>
  A block as \<open>blockchain.js\<close> reads and writes it: \<open>hash\<close> and \<open>previousBlockHash\<close> are a
  string or \<open>null\<close> (\<open>None\<close>), \<open>height\<close> is a number, \<open>time\<close> is the string that
  \<open>_addBlock\<close> stores, \<open>body\<close> is the encoded payload.
\<close>

record Block =
  hash :: "string option"
  height :: int
  body :: string
  time :: string
  previousBlockHash :: "string option"

text \<open>What \<open>bitcoinMessage.verify\<close> does: it returns a boolean, or throws an error with a message.\<close>

datatype verdict = Returns bool | Throws string

text \<open>
  The functions of other packages and the payload codec, which the class only calls:
  \<open>SHA256(s).toString()\<close> of crypto-js, \<open>JSON.stringify\<close> on a block,
  \<open>bitcoinMessage.verify(message, address, signature)\<close>, and the encoding of a payload into a
  block body with its inverse (\<open>Inl\<close>: decoding throws an error with that message). They
  are parameters of the model: every theorem holds for all of them.
\<close>

record env =
  SHA256 :: "string \<Rightarrow> string"
  stringify :: "Block \<Rightarrow> string"
  verify :: "string \<Rightarrow> string \<Rightarrow> string \<Rightarrow> verdict"
  encode :: "json \<Rightarrow> string"
  decode :: "string \<Rightarrow> string + json"

text \<open>
  Modelled from the spec: the constructor of \<open>Block\<close> (block.js is not among the sources).
  The spec's draft block carries "only the unvalidated payload", encoded by the payload
  codec, and has neither hash nor previous hash. Its height and time are placeholders:
  \<open>_addBlock\<close> assigns both before it reads them.
\<close>

definition newBlock :: "env \<Rightarrow> json \<Rightarrow> Block" where
  "newBlock E data =
     \<lparr>hash = None, height = 0, body = encode E data, time = [], previousBlockHash = None\<rparr>"

text \<open>
  Modelled from the spec: \<open>Block.validate\<close> (block.js is not among the sources). The spec
  has the block "recompute digest over all fields except the stored hash, compare to stored
  hash"; the digest is \<open>SHA256\<close> of the serialized block, as in \<open>_addBlock\<close>.
\<close>

definition validate :: "env \<Rightarrow> Block \<Rightarrow> bool" where
  "validate E b = (hash b = Some (SHA256 E (stringify E (b\<lparr>hash := None\<rparr>))))"

text \<open>
  Modelled from the spec: \<open>Block.getBData\<close> (block.js is not among the sources), the
  decoding of the block's body by the payload codec.
\<close>

definition getBData :: "env \<Rightarrow> Block \<Rightarrow> string + json" where
  "getBData E b = decode E (body b)"

section \<open>The class Blockchain\<close>

record Blockchain =
  chain :: "Block list"
  height :: int

text \<open>An entry of the error log of \<open>validateChain\<close>.\<close>

record violation =
  message :: string
  block :: Block

text \<open>
  What a promise is rejected with: the error log of \<open>validateChain\<close>, a string, the
  \<open>TypeError\<close> object that reading a property of \<open>undefined\<close> throws, or the message of
  such an object, whose text the engine chooses.
\<close>

datatype rejection =
    Violations "violation list"
  | Message string
  | TypeError
  | TypeErrorMessage

text \<open>
  How a promise of the class ends. \<open>Pending\<close> is a promise that is never settled: an
  exception thrown inside an \<open>async\<close> executor of \<open>new Promise\<close> rejects the executor's own
  promise, which nobody awaits, and leaves the outer promise unsettled.
\<close>

datatype 'a promise = Resolved 'a | Rejected rejection | Pending

text \<open>A value that is either an object (a block, an array) or a string.\<close>

datatype 'a or_string = Obj 'a | Str string

subsection \<open>validateChain\<close>

definition broken_link :: "Block \<Rightarrow> violation" where
  "broken_link b =
     \<lparr>message = ''The chain is broken at this height: '' @ show_int (Block.height b), block = b\<rparr>"

definition not_valid :: "Block \<Rightarrow> violation" where
  "not_valid b =
     \<lparr>message = ''The block is not valid at height: '' @ show_int (Block.height b), block = b\<rparr>"

text \<open>
  The callback of \<open>self.chain.forEach\<close> (lines 235--243): the entries it pushes for the
  block \<open>b\<close>, or \<open>None\<close> when \<open>self.chain[b.height - 1]\<close> is \<open>undefined\<close> and reading its
  \<open>hash\<close> throws.
\<close>

definition validateChain_callback :: "env \<Rightarrow> Blockchain \<Rightarrow> Block \<Rightarrow> violation list option" where
  "validateChain_callback E self b =
     (let self_check = (if \<not> validate E b then [not_valid b] else []) in
      if Block.height b > 0 then
        (case index (chain self) (Block.height b - 1) of
           None \<Rightarrow> None
         | Some prevB \<Rightarrow>
             Some ((if previousBlockHash b \<noteq> hash prevB then [broken_link b] else []) @ self_check))
      else Some self_check)"

text \<open>\<open>forEach\<close> over the blocks still to visit, \<open>errorLog\<close> being what was pushed so far.\<close>

fun validateChain_forEach ::
  "env \<Rightarrow> Blockchain \<Rightarrow> Block list \<Rightarrow> violation list \<Rightarrow> violation list option" where
  "validateChain_forEach E self [] errorLog = Some errorLog"
| "validateChain_forEach E self (b # bs) errorLog =
     (case validateChain_callback E self b of
        None \<Rightarrow> None
      | Some pushed \<Rightarrow> validateChain_forEach E self bs (errorLog @ pushed))"

definition validateChain :: "env \<Rightarrow> Blockchain \<Rightarrow> violation list or_string promise" where
  "validateChain E self =
     (case validateChain_forEach E self (chain self) [] of
        None \<Rightarrow> Pending
      | Some errorLog \<Rightarrow>
          if length errorLog > 0 then Resolved (Obj errorLog)
          else Resolved (Str ''The chain is valid, no error occurred''))"

subsection \<open>_addBlock\<close>

text \<open>\<open>_getLatestBlock\<close>: \<open>this.chain[this.chain.length - 1]\<close>, \<open>undefined\<close> on an empty chain.\<close>

definition getLatestBlock :: "Blockchain \<Rightarrow> Block option" where
  "getLatestBlock self = index (chain self) (int (length (chain self)) - 1)"

text \<open>
  Lines 68--73 of \<open>_addBlock\<close>: the fields assigned to the block. \<open>None\<close> when
  \<open>self._getLatestBlock()\<close> is \<open>undefined\<close> and reading its \<open>hash\<close> throws. The block passed
  in is a fresh object at both call sites, so it is a value here.
\<close>

definition assign_fields :: "env \<Rightarrow> int \<Rightarrow> Blockchain \<Rightarrow> Block \<Rightarrow> Block option" where
  "assign_fields E now self blk =
     (let b1 = blk\<lparr>Block.height := height self + 1, time := seconds_string now\<rparr>;
          linked = (if height self \<ge> 0 then
                      (case getLatestBlock self of
                         None \<Rightarrow> None
                       | Some latest \<Rightarrow> Some (b1\<lparr>previousBlockHash := hash latest\<rparr>))
                    else Some b1)
      in case linked of
           None \<Rightarrow> None
         | Some b2 \<Rightarrow> Some (b2\<lparr>hash := Some (SHA256 E (stringify E b2))\<rparr>))"

text \<open>Lines 74--75: \<open>self.chain.push(block); self.height++\<close>.\<close>

definition push :: "Blockchain \<Rightarrow> Block \<Rightarrow> Blockchain" where
  "push self b = self\<lparr>chain := chain self @ [b], height := height self + 1\<rparr>"

text \<open>Lines 82--83: \<open>self.chain.pop(); self.height--\<close>.\<close>

definition pop :: "Blockchain \<Rightarrow> Blockchain" where
  "pop self = self\<lparr>chain := butlast (chain self), height := height self - 1\<rparr>"

text \<open>
  \<open>_addBlock\<close> suspends once, at \<open>await self.validateChain()\<close> (line 76), and other calls
  may run on the ledger before it goes on. So it is two steps on the ledger.

  The first step, lines 68--76 up to the \<open>await\<close>, at clock reading \<open>now\<close> (milliseconds):
  the fields are assigned, the block is pushed, and \<open>validateChain\<close> is called, whose executor
  runs at once on the ledger with the block pushed. The step gives the block and the promise
  that is awaited, or \<open>None\<close> when line 71 threw and the \<open>catch\<close> rejected.
\<close>

definition addBlock_begin ::
  "env \<Rightarrow> int \<Rightarrow> Blockchain \<Rightarrow> Block
     \<Rightarrow> (Block \<times> violation list or_string promise) option \<times> Blockchain" where
  "addBlock_begin E now self blk =
     (case assign_fields E now self blk of
        None \<Rightarrow> (None, self)
      | Some b \<Rightarrow> (let self1 = push self b in (Some (b, validateChain E self1), self1)))"

text \<open>
  The second step, lines 77--86, once the awaited promise has resolved with \<open>errorLog\<close>: it
  runs on the ledger as it is by then, and \<open>self.chain.pop()\<close> removes the block that is
  last by then.
\<close>

definition addBlock_resume ::
  "Block \<Rightarrow> violation list or_string \<Rightarrow> Blockchain \<Rightarrow> Block promise \<times> Blockchain" where
  "addBlock_resume b errorLog self =
     (case errorLog of
        Obj log \<Rightarrow>
          if length log > 0 then (Rejected (Violations log), pop self)
          else (Resolved b, self)
      | Str _ \<Rightarrow> (Resolved b, self))"

text \<open>
  \<open>_addBlock(blk)\<close> as a call that runs alone, with no other call between its two steps:
  how the promise ends, and the ledger afterwards. An awaited promise that is never settled
  leaves the call suspended for good, with the block pushed.
\<close>

definition addBlock :: "env \<Rightarrow> int \<Rightarrow> Blockchain \<Rightarrow> Block \<Rightarrow> Block promise \<times> Blockchain" where
  "addBlock E now self blk =
     (case addBlock_begin E now self blk of
        (None, self1) \<Rightarrow> (Rejected TypeError, self1)
      | (Some (b, awaited), self1) \<Rightarrow>
          (case awaited of
             Pending \<Rightarrow> (Pending, self1)
           | Rejected e \<Rightarrow> (Rejected e, self1)
           | Resolved errorLog \<Rightarrow> addBlock_resume b errorLog self1))"

subsection \<open>The constructor and initializeChain\<close>

text \<open>
  The constructor assigns the empty chain and height \<open>-1\<close> and calls \<open>initializeChain\<close>
  without awaiting it. The ledger of the constructor is taken with that call run to its end,
  alone: the one that \<open>initializeChain\<close> leaves. The runs in which another call begins
  before are those of \<open>overlapping\<close>.
\<close>

definition initializeChain :: "env \<Rightarrow> int \<Rightarrow> Blockchain \<Rightarrow> Blockchain" where
  "initializeChain E now self =
     (if height self = - 1
      then snd (addBlock E now self (newBlock E (JObject [(''data'', JString ''Genesis Block'')])))
      else self)"

definition newBlockchain :: "env \<Rightarrow> int \<Rightarrow> Blockchain" where
  "newBlockchain E now = initializeChain E now \<lparr>chain = [], height = - 1\<rparr>"

definition getChainHeight :: "Blockchain \<Rightarrow> int promise" where
  "getChainHeight self = Resolved (height self)"

subsection \<open>requestMessageOwnershipVerification\<close>

definition requestMessageOwnershipVerification :: "int \<Rightarrow> string \<Rightarrow> string promise" where
  "requestMessageOwnershipVerification now address =
     Resolved (address @ '':'' @ seconds_string now @ '':starRegistry'')"

subsection \<open>submitStar\<close>

text \<open>
  \<open>submitStar(address, msg, signature, star_data)\<close>, the parameters \<open>message\<close> and \<open>star\<close>
  of the source renamed. The clock is read twice: \<open>now\<close> by the
  freshness check, \<open>now'\<close> by \<open>_addBlock\<close>. The promise is resolved with the promise of
  \<open>_addBlock\<close>, so it ends as that one does.
\<close>

definition submitStar ::
  "env \<Rightarrow> int \<Rightarrow> int \<Rightarrow> Blockchain \<Rightarrow> string \<Rightarrow> string \<Rightarrow> string \<Rightarrow> json
     \<Rightarrow> Block promise \<times> Blockchain" where
  "submitStar E now now' self address msg signature star_data =
     (let time = message_time msg in
      if elapsed_ge_300 (parseInt (seconds_string now)) time then
        (Rejected (Message
           ''The time for validate the signature has expired, try to get a new verification message''),
         self)
      else
        (case verify E msg address signature of
           Returns ok \<Rightarrow>
             if ok then
               addBlock E now' self
                 (newBlock E (JObject [(''data'',
                    JObject [(''address'', JString address), (''message'', JString msg),
                             (''star'', star_data)])]))
             else
               (Rejected (Message
                  ''The message validation is failed! Validate your input and try again''),
                self)
         | Throws m \<Rightarrow> (Rejected (Message m), self)))"

subsection \<open>getBlockByHash and getBlockByHeight\<close>

definition getBlockByHash :: "Blockchain \<Rightarrow> string \<Rightarrow> Block or_string promise" where
  "getBlockByHash self h =
     (case index (filter (\<lambda>b. hash b = Some h) (chain self)) 0 of
        Some b \<Rightarrow> Resolved (Obj b)
      | None \<Rightarrow> Resolved (Str ''There's no block with this hash''))"

definition getBlockByHeight :: "Blockchain \<Rightarrow> int \<Rightarrow> Block or_string promise" where
  "getBlockByHeight self h =
     (case index (filter (\<lambda>p. Block.height p = h) (chain self)) 0 of
        Some b \<Rightarrow> Resolved (Obj b)
      | None \<Rightarrow> Resolved (Str ''No block at this height''))"

subsection \<open>getStarsByWalletAddress\<close>

record star_entry =
  owner :: json
  star :: json

text \<open>
  \<open>data.address\<close>: reading a property of \<open>undefined\<close> or \<open>null\<close> throws (\<open>None\<close>); a
  property that is not there reads as \<open>undefined\<close>.
\<close>

definition get_property :: "json \<Rightarrow> string \<Rightarrow> json option" where
  "get_property v k =
     (case v of
        JUndefined \<Rightarrow> None
      | JNull \<Rightarrow> None
      | JObject props \<Rightarrow> Some (case map_of props k of None \<Rightarrow> JUndefined | Some x \<Rightarrow> x)
      | _ \<Rightarrow> Some JUndefined)"

text \<open>
  The callback of \<open>self.chain.map\<close> (lines 200--209). \<open>Inl\<close> is what the \<open>catch\<close> of
  \<open>getStarsByWalletAddress\<close> then rejects with, \<open>e.message\<close>: the message of the decoding
  error, or the message of the \<open>TypeError\<close>.
\<close>

definition getStars_callback :: "env \<Rightarrow> Block \<Rightarrow> rejection + star_entry" where
  "getStars_callback E b =
     (if Block.height b > 0 then
        (case getBData E b of
           Inl m \<Rightarrow> Inl (Message m)
         | Inr data \<Rightarrow>
             (case (get_property data ''address'', get_property data ''star'') of
                (Some a, Some s) \<Rightarrow> Inr \<lparr>owner = a, star = s\<rparr>
              | _ \<Rightarrow> Inl TypeErrorMessage))
      else Inr \<lparr>owner = JString [], star = JObject []\<rparr>)"

text \<open>\<open>Promise.all\<close>: all the entries in the order of the chain, or the first failure.\<close>

fun promise_all :: "('e + 'a) list \<Rightarrow> 'e + 'a list" where
  "promise_all [] = Inr []"
| "promise_all (Inl e # rs) = Inl e"
| "promise_all (Inr x # rs) = (case promise_all rs of Inl e \<Rightarrow> Inl e | Inr xs \<Rightarrow> Inr (x # xs))"

definition getStarsByWalletAddress ::
  "env \<Rightarrow> Blockchain \<Rightarrow> string \<Rightarrow> star_entry list or_string promise" where
  "getStarsByWalletAddress E self address =
     (case promise_all (map (getStars_callback E) (chain self)) of
        Inl e \<Rightarrow> Rejected e
      | Inr blocks \<Rightarrow>
          (let blocks1 = filter (\<lambda>b. owner b = JString address) blocks in
           if length blocks1 > 0 then Resolved (Obj blocks1)
           else Resolved (Str ''This address owns no stars'')))"

section \<open>Runs of the class\<close>

text \<open>
  The ledgers that calls of the class produce, one call after the other. The constructor
  assigns the empty chain and
  height \<open>-1\<close> and calls \<open>initializeChain\<close>; after it, \<open>initializeChain\<close>, \<open>_addBlock\<close> and
  \<open>submitStar\<close> are the methods that assign \<open>chain\<close> or \<open>height\<close>, whether their promise is
  resolved, rejected or left pending. The other methods (\<open>getChainHeight\<close>,
  \<open>getBlockByHash\<close>, \<open>getBlockByHeight\<close>, \<open>getStarsByWalletAddress\<close>, \<open>validateChain\<close>)
  assign neither: they take the ledger and give back a value only, so a run with such calls
  in between reaches the same ledgers.
\<close>

inductive reachable :: "env \<Rightarrow> Blockchain \<Rightarrow> bool" for E :: env where
  created: "reachable E \<lparr>chain = [], height = - 1\<rparr>"
| initialized: "reachable E self \<Longrightarrow> reachable E (initializeChain E now self)"
| added: "reachable E self \<Longrightarrow> reachable E (snd (addBlock E now self blk))"
| submitted:
    "reachable E self \<Longrightarrow>
       reachable E (snd (submitStar E now now' self address msg signature star_data))"

text \<open>
  Runs in which calls overlap: the ledger together with the calls of \<open>_addBlock\<close> that are
  suspended at their \<open>await\<close>, each with its block and the value it will go on with. A step
  is the first step of a new call, from \<open>_addBlock\<close> itself, \<open>initializeChain\<close> or
  \<open>submitStar\<close>, or the second step of any suspended call. A call whose first step threw, or
  whose awaited promise is never settled, has no second step.
\<close>

fun awaiting ::
  "(Block \<times> violation list or_string promise) option \<Rightarrow> (Block \<times> violation list or_string) list"
where
  "awaiting (Some (b, Resolved errorLog)) = [(b, errorLog)]"
| "awaiting _ = []"

inductive overlapping ::
  "env \<Rightarrow> Blockchain \<times> (Block \<times> violation list or_string) list \<Rightarrow> bool" for E :: env where
  created: "overlapping E (\<lparr>chain = [], height = - 1\<rparr>, [])"
| begun:
    "overlapping E (self, suspended) \<Longrightarrow>
       overlapping E (snd (addBlock_begin E now self blk),
                      suspended @ awaiting (fst (addBlock_begin E now self blk)))"
| resumed:
    "overlapping E (self, before @ (b, errorLog) # after) \<Longrightarrow>
       overlapping E (snd (addBlock_resume b errorLog self), before @ after)"

text \<open>
  A sequence of calls of \<open>_addBlock\<close>, each with its clock reading and its block: the ledger
  after the last one when every promise was resolved, \<open>None\<close> as soon as one was not.
\<close>

fun appends :: "env \<Rightarrow> Blockchain \<Rightarrow> (int \<times> Block) list \<Rightarrow> Blockchain option" where
  "appends E self [] = Some self"
| "appends E self ((now, blk) # rest) =
     (case addBlock E now self blk of
        (Resolved b, self') \<Rightarrow> appends E self' rest
      | _ \<Rightarrow> None)"

section \<open>What the spec calls a consistent ledger\<close>

text \<open>
  The spec (4.2) compares the stored previous hash of a block of height above 0 with "the
  actual recomputed hash of the block at height-1", the digest of that block with its hash
  field excluded; a mismatch is a broken link, and so is a block at height-1 that is not
  there.
\<close>

definition recomputed_hash :: "env \<Rightarrow> Block \<Rightarrow> string" where
  "recomputed_hash E b = SHA256 E (stringify E (b\<lparr>hash := None\<rparr>))"

definition link_matches :: "env \<Rightarrow> Blockchain \<Rightarrow> Block \<Rightarrow> bool" where
  "link_matches E self b =
     (if Block.height b > 0 then
        (case index (chain self) (Block.height b - 1) of
           None \<Rightarrow> False
         | Some prevB \<Rightarrow> previousBlockHash b = Some (recomputed_hash E prevB))
      else True)"

text \<open>Fully consistent: every link matches and every block validates itself.\<close>

definition consistent :: "env \<Rightarrow> Blockchain \<Rightarrow> bool" where
  "consistent E self = list_all (\<lambda>b. link_matches E self b \<and> validate E b) (chain self)"

text \<open>
  Every violation in the spec's sense, block by block: the broken link, then the hash
  mismatch.
\<close>

definition violations_claimed :: "env \<Rightarrow> Blockchain \<Rightarrow> violation list" where
  "violations_claimed E self =
     concat (map (\<lambda>b. (if link_matches E self b then [] else [broken_link b]) @
                       (if validate E b then [] else [not_valid b]))
                 (chain self))"

text \<open>The violations that a result of \<open>validateChain\<close> carries: the message carries none.\<close>

definition reported :: "violation list or_string \<Rightarrow> violation list" where
  "reported r = (case r of Obj errorLog \<Rightarrow> errorLog | Str _ \<Rightarrow> [])"

section \<open>The links as validateChain compares them\<close>

text \<open>
  A link against the hash that the block at index height-1 stores, whatever that block's
  content is by now.
\<close>

definition stored_link_matches :: "Blockchain \<Rightarrow> Block \<Rightarrow> bool" where
  "stored_link_matches self b =
     (if Block.height b > 0 then
        (case index (chain self) (Block.height b - 1) of
           None \<Rightarrow> False
         | Some prevB \<Rightarrow> previousBlockHash b = hash prevB)
      else True)"

definition has_predecessor :: "Blockchain \<Rightarrow> Block \<Rightarrow> bool" where
  "has_predecessor self b =
     (if Block.height b > 0 then index (chain self) (Block.height b - 1) \<noteq> None else True)"

text \<open>
  Every hash mismatch and every link broken against the stored hash, block by block: the
  broken link first, then the hash mismatch.
\<close>

definition violations_of :: "env \<Rightarrow> Blockchain \<Rightarrow> violation list" where
  "violations_of E self =
     concat (map (\<lambda>b. (if stored_link_matches self b then [] else [broken_link b]) @
                       (if validate E b then [] else [not_valid b]))
                 (chain self))"

section \<open>Notions of the lemmas\<close>

text \<open>
  A ledger in which every block stands at the index its height names, and whose height field
  is the last index.
\<close>

definition positions :: "Blockchain \<Rightarrow> bool" where
  "positions self =
     (height self = int (length (chain self)) - 1 \<and>
      (\<forall>i<length (chain self). Block.height (chain self ! i) = int i))"

text \<open>A non-empty string of decimal digits.\<close>

definition decimal :: "string \<Rightarrow> bool" where
  "decimal s = (s \<noteq> [] \<and> (\<forall>c\<in>set s. \<exists>d<10. c = digit_char d))"

section \<open>An instance of the libraries, to run the model on\<close>

definition example_stringify :: "Block \<Rightarrow> string" where
  "example_stringify b =
     (case hash b of None \<Rightarrow> ''null'' | Some h \<Rightarrow> h) @ '','' @ body b @ '','' @ time b"

definition example_verify :: "string \<Rightarrow> string \<Rightarrow> string \<Rightarrow> verdict" where
  "example_verify msg address signature =
     (if signature = ''signed by '' @ address then Returns True
      else if take 10 signature = ''signed by '' then Returns False
      else Throws ''Invalid signature length'')"

definition example_env :: env where
  "example_env =
     \<lparr>SHA256 = (\<lambda>s. CHR ''#'' # s),
      stringify = example_stringify,
      verify = example_verify,
      encode = (\<lambda>data. ''payload''),
      decode = (\<lambda>s. Inr JNull)\<rparr>"

text \<open>The genesis block of the instance, built at clock reading 5000.\<close>

definition example_genesis :: Block where
  "example_genesis =
     \<lparr>hash = Some ''#null,payload,5'', height = 0, body = ''payload'', time = ''5'',
      previousBlockHash = None\<rparr>"

text \<open>
  A block that is passed to \<open>_addBlock\<close> with a hash already set, the block that
  \<open>_addBlock\<close> makes of it on the ledger of the constructor at clock reading 6000, and the
  block that it makes of a new block after that one.
\<close>

definition stale_draft :: Block where
  "stale_draft =
     \<lparr>hash = Some ''stale'', height = 0, body = ''x'', time = [], previousBlockHash = None\<rparr>"

definition stale_pushed :: Block where
  "stale_pushed =
     \<lparr>hash = Some ''#stale,x,6'', height = 1, body = ''x'', time = ''6'',
      previousBlockHash = Some ''#null,payload,5''\<rparr>"

definition fresh_pushed :: Block where
  "fresh_pushed =
     \<lparr>hash = Some ''#null,payload,6'', height = 2, body = ''payload'', time = ''6'',
      previousBlockHash = Some ''#stale,x,6''\<rparr>"

text \<open>
  A ledger of three blocks, appended with the bodies \<open>x\<close> and \<open>y\<close> at clock readings 6000
  and 7000, in which the body of the block at height 1 was changed afterwards.
\<close>

definition changed_block :: Block where
  "changed_block =
     \<lparr>hash = Some ''#null,x,6'', height = 1, body = ''changed'', time = ''6'',
      previousBlockHash = Some ''#null,payload,5''\<rparr>"

definition next_block :: Block where
  "next_block =
     \<lparr>hash = Some ''#null,y,7'', height = 2, body = ''y'', time = ''7'',
      previousBlockHash = Some ''#null,x,6''\<rparr>"

definition changed_ledger :: Blockchain where
  "changed_ledger = \<lparr>chain = [example_genesis, changed_block, next_block], height = 2\<rparr>"

section \<open>Lemmas about the model\<close>

subsection \<open>The loop of validateChain\<close>

lemma forEach_None:
  "validateChain_forEach E self bs acc = None \<longleftrightarrow>
     (\<exists>b\<in>set bs. validateChain_callback E self b = None)"
  by (induction bs arbitrary: acc) (auto split: option.splits)

lemma forEach_Some:
  "\<forall>b\<in>set bs. validateChain_callback E self b \<noteq> None \<Longrightarrow>
   validateChain_forEach E self bs acc =
     Some (acc @ concat (map (\<lambda>b. the (validateChain_callback E self b)) bs))"
  by (induction bs arbitrary: acc) (auto split: option.splits)

lemma callback_None:
  "validateChain_callback E self b = None \<longleftrightarrow> \<not> has_predecessor self b"
  by (auto simp: validateChain_callback_def has_predecessor_def Let_def split: option.splits)

lemma callback_Some:
  "has_predecessor self b \<Longrightarrow>
   validateChain_callback E self b =
     Some ((if stored_link_matches self b then [] else [broken_link b]) @
           (if validate E b then [] else [not_valid b]))"
  by (auto simp: validateChain_callback_def has_predecessor_def stored_link_matches_def Let_def
      split: option.splits)

lemma index_in_set: "index xs i = Some x \<Longrightarrow> x \<in> set xs"
  by (auto simp: index_def split: if_splits)

text \<open>Where every block validates itself, the stored hashes are the recomputed ones.\<close>

lemma stored_link_when_valid:
  assumes "\<forall>b\<in>set (chain self). validate E b"
  shows "stored_link_matches self b = link_matches E self b"
proof (cases "index (chain self) (Block.height b - 1)")
  case None
  then show ?thesis by (simp add: stored_link_matches_def link_matches_def)
next
  case (Some prevB)
  with assms have "validate E prevB" by (auto dest: index_in_set)
  then have "hash prevB = Some (recomputed_hash E prevB)"
    by (simp add: validate_def recomputed_hash_def)
  with Some show ?thesis by (simp add: stored_link_matches_def link_matches_def)
qed

lemma violations_of_empty: "violations_of E self = [] \<longleftrightarrow> consistent E self"
proof
  assume "violations_of E self = []"
  then have s: "\<forall>b\<in>set (chain self). stored_link_matches self b \<and> validate E b"
    by (auto simp: violations_of_def split: if_splits)
  then have "\<forall>b\<in>set (chain self). validate E b" by simp
  from stored_link_when_valid [OF this] s show "consistent E self"
    by (simp add: consistent_def list_all_iff)
next
  assume "consistent E self"
  then have c: "\<forall>b\<in>set (chain self). link_matches E self b \<and> validate E b"
    by (simp add: consistent_def list_all_iff)
  then have "\<forall>b\<in>set (chain self). validate E b" by simp
  from stored_link_when_valid [OF this] c show "violations_of E self = []"
    by (simp add: violations_of_def)
qed

lemma violations_claimed_empty: "violations_claimed E self = [] \<longleftrightarrow> consistent E self"
  by (auto simp: violations_claimed_def consistent_def list_all_iff)

text \<open>
  A link that is broken against the recomputed hash is in the list of the code as a broken
  link of the block, or else as the hash mismatch of the block at height-1.
\<close>

lemma claimed_link_covered:
  assumes "b \<in> set (chain self)" and "\<not> link_matches E self b"
    and "index (chain self) (Block.height b - 1) = Some prevB"
  shows "broken_link b \<in> set (violations_of E self) \<or>
         not_valid prevB \<in> set (violations_of E self)"
proof (cases "stored_link_matches self b")
  case False
  with assms(1) show ?thesis by (auto simp: violations_of_def)
next
  case True
  from assms(2) have h: "Block.height b > 0"
    by (auto simp: link_matches_def split: if_splits)
  with True assms(3) have "previousBlockHash b = hash prevB"
    by (simp add: stored_link_matches_def)
  moreover from assms(2,3) h have "previousBlockHash b \<noteq> Some (recomputed_hash E prevB)"
    by (simp add: link_matches_def)
  ultimately have "\<not> validate E prevB"
    by (simp add: validate_def recomputed_hash_def)
  moreover have "prevB \<in> set (chain self)" using assms(3) by (rule index_in_set)
  ultimately show ?thesis by (auto simp: violations_of_def)
qed

lemma validateChain_eq:
  "validateChain E self =
     (if \<not> list_all (has_predecessor self) (chain self) then Pending
      else if consistent E self then Resolved (Str ''The chain is valid, no error occurred'')
      else Resolved (Obj (violations_of E self)))"
proof (cases "list_all (has_predecessor self) (chain self)")
  case False
  then have "validateChain_forEach E self (chain self) [] = None"
    by (auto simp: forEach_None callback_None list_all_iff)
  with False show ?thesis by (simp add: validateChain_def)
next
  case True
  then have all: "\<forall>b\<in>set (chain self). validateChain_callback E self b \<noteq> None"
    by (simp add: callback_None list_all_iff)
  have "validateChain_forEach E self (chain self) [] = Some (violations_of E self)"
    using True
    by (simp add: forEach_Some [OF all] violations_of_def callback_Some list_all_iff cong: map_cong)
  with True show ?thesis
    using violations_of_empty [of E self] by (simp add: validateChain_def)
qed

lemma validateChain_not_Rejected: "validateChain E self \<noteq> Rejected e"
  by (auto simp: validateChain_def split: option.splits if_splits)

subsection \<open>The ways _addBlock ends\<close>

lemma pop_push: "pop (push self b) = self"
  by (simp add: pop_def push_def)

text \<open>The call that runs alone, written out in one piece.\<close>

lemma addBlock_alone:
  "addBlock E now self blk =
     (case assign_fields E now self blk of
        None \<Rightarrow> (Rejected TypeError, self)
      | Some b \<Rightarrow>
          (let self1 = push self b in
           case validateChain E self1 of
             Pending \<Rightarrow> (Pending, self1)
           | Rejected e \<Rightarrow> (Rejected e, self1)
           | Resolved (Obj errorLog) \<Rightarrow>
               if length errorLog > 0 then (Rejected (Violations errorLog), pop self1)
               else (Resolved b, self1)
           | Resolved (Str m) \<Rightarrow> (Resolved b, self1)))"
  by (simp add: addBlock_def addBlock_begin_def addBlock_resume_def Let_def
      split: option.splits promise.splits or_string.splits)

lemma addBlock_cases:
  "addBlock E now self blk = (Rejected TypeError, self) \<and> assign_fields E now self blk = None
   \<or> (\<exists>b. assign_fields E now self blk = Some b \<and>
          (addBlock E now self blk = (Pending, push self b) \<and>
             validateChain E (push self b) = Pending
           \<or> (\<exists>errorLog. addBlock E now self blk = (Rejected (Violations errorLog), self) \<and>
                  validateChain E (push self b) = Resolved (Obj errorLog) \<and> errorLog \<noteq> [])
           \<or> (addBlock E now self blk = (Resolved b, push self b) \<and>
                validateChain E (push self b) =
                  Resolved (Str ''The chain is valid, no error occurred''))))"
proof (cases "assign_fields E now self blk")
  case None
  then show ?thesis by (simp add: addBlock_alone)
next
  case (Some b)
  show ?thesis
  proof (cases "validateChain E (push self b)")
    case (Resolved r)
    then show ?thesis using Some
      by (cases r)
        (auto simp: addBlock_alone pop_push validateChain_def split: option.splits if_splits)
  next
    case (Rejected e)
    then show ?thesis by (simp add: validateChain_not_Rejected)
  next
    case Pending
    then show ?thesis using Some by (simp add: addBlock_alone)
  qed
qed

text \<open>
  A call that runs alone and whose validation resolves with an error log of one or more
  violations is rejected with that log and leaves the ledger as it was before.
\<close>

lemma addBlock_alone_rollback:
  assumes "assign_fields E now self blk = Some b"
    and "validateChain E (push self b) = Resolved (Obj errorLog)"
    and "errorLog \<noteq> []"
  shows "addBlock E now self blk = (Rejected (Violations errorLog), self)"
  using assms by (simp add: addBlock_alone pop_push)

lemma addBlock_Resolved:
  assumes "addBlock E now self blk = (Resolved b, self')"
  shows "assign_fields E now self blk = Some b \<and> self' = push self b \<and>
         validateChain E self' = Resolved (Str ''The chain is valid, no error occurred'')"
  using addBlock_cases [of E now self blk] assms by auto

text \<open>The fields of the block that lines 68--73 build.\<close>

lemma assign_fields_fields:
  assumes "assign_fields E now self blk = Some b"
  shows "Block.height b = height self + 1 \<and> time b = seconds_string now \<and> body b = body blk \<and>
         previousBlockHash b =
           (if height self \<ge> 0 then hash (last (chain self)) else previousBlockHash blk) \<and>
         hash b = Some (SHA256 E (stringify E (b\<lparr>hash := hash blk\<rparr>)))"
  using assms
  by (auto simp: assign_fields_def getLatestBlock_def index_def Let_def last_conv_nth
      nat_diff_distrib split: if_splits option.splits)

text \<open>
  For a block whose \<open>hash\<close> is not set when it is passed in, as the constructor leaves it,
  line 73 alone makes the stored hash the digest of the block without its hash.
\<close>

lemma assign_fields_fresh:
  assumes "assign_fields E now self blk = Some b" and "hash blk = None"
  shows "hash b = Some (SHA256 E (stringify E (b\<lparr>hash := None\<rparr>)))"
  using assign_fields_fields [OF assms(1)] assms(2) by simp

subsection \<open>The height field along a run\<close>

lemma addBlock_height:
  assumes "height self = int (length (chain self)) - 1"
  shows "height (snd (addBlock E now self blk)) =
         int (length (chain (snd (addBlock E now self blk)))) - 1"
  using addBlock_cases [of E now self blk] assms
  by (auto simp: push_def)

lemma initializeChain_height:
  assumes "height self = int (length (chain self)) - 1"
  shows "height (initializeChain E now self) =
         int (length (chain (initializeChain E now self))) - 1"
  using assms by (simp add: initializeChain_def addBlock_height)

lemma submitStar_height:
  assumes "height self = int (length (chain self)) - 1"
  shows "height (snd (submitStar E now now' self address msg signature star_data)) =
         int (length (chain (snd (submitStar E now now' self address msg signature star_data)))) - 1"
  using assms by (simp add: submitStar_def Let_def addBlock_height split: verdict.splits)

text \<open>
  With overlapping calls too the height field is the last index, at every step: no call pops
  more than it pushed, so the suspended calls are never more than the blocks.
\<close>

lemma overlapping_height:
  assumes "overlapping E run"
  shows "height (fst run) = int (length (chain (fst run))) - 1 \<and>
         length (snd run) \<le> length (chain (fst run))"
  using assms
proof (induction rule: overlapping.induct)
  case created
  show ?case by simp
next
  case (begun self suspended now blk)
  then show ?case
    by (cases "assign_fields E now self blk"; cases "validateChain E (push self (the (assign_fields E now self blk)))")
      (auto simp: addBlock_begin_def push_def Let_def)
next
  case (resumed self before b errorLog after)
  then have "chain self \<noteq> []" by auto
  with resumed.IH show ?case
    by (cases errorLog) (auto simp: addBlock_resume_def pop_def)
qed

subsection \<open>The ledger the constructor builds\<close>

lemma newBlockchain_eq:
  "newBlockchain E now =
     \<lparr>chain = [\<lparr>hash = Some (SHA256 E (stringify E
                 \<lparr>hash = None, height = 0,
                  body = encode E (JObject [(''data'', JString ''Genesis Block'')]),
                  time = seconds_string now, previousBlockHash = None\<rparr>)),
               height = 0, body = encode E (JObject [(''data'', JString ''Genesis Block'')]),
               time = seconds_string now, previousBlockHash = None\<rparr>],
      height = 0\<rparr>"
  by (simp add: newBlockchain_def initializeChain_def addBlock_alone assign_fields_def newBlock_def
      push_def validateChain_def validateChain_callback_def validate_def Let_def)

lemma validateChain_newBlockchain:
  "validateChain E (newBlockchain E now) =
     Resolved (Str ''The chain is valid, no error occurred'')"
  by (simp add: newBlockchain_eq validateChain_def validateChain_callback_def validate_def Let_def)

lemma appends_height_valid:
  assumes "appends E self0 reqs = Some self"
    and "validateChain E self0 = Resolved (Str ''The chain is valid, no error occurred'')"
  shows "height self = height self0 + int (length reqs) \<and>
         validateChain E self = Resolved (Str ''The chain is valid, no error occurred'')"
  using assms
proof (induction reqs arbitrary: self0)
  case Nil
  then show ?case by simp
next
  case (Cons req reqs)
  obtain now blk where req: "req = (now, blk)" by (cases req)
  from Cons.prems(1) obtain b self1 where
    step: "addBlock E now self0 blk = (Resolved b, self1)" and
    rest: "appends E self1 reqs = Some self"
    by (auto simp: req split: prod.splits promise.splits)
  from addBlock_Resolved [OF step] have
    "self1 = push self0 b"
    "validateChain E self1 = Resolved (Str ''The chain is valid, no error occurred'')"
    by blast+
  with Cons.IH [OF rest] show ?case by (simp add: push_def)
qed

subsection \<open>Lookups, split and parseInt\<close>

lemma index_filter_0: "index (filter P xs) 0 = List.find P xs"
  by (induction xs) (auto simp: index_def)

lemma split_colon_no_colon: "CHR '':'' \<notin> set s \<Longrightarrow> split_colon s = [s]"
  by (induction s) auto

lemma parseInt_undefined: "parseInt ''undefined'' = None"
  by (simp add: parseInt_def is_space_def is_digit_def digit_value_def)

lemma message_time_no_colon: "CHR '':'' \<notin> set msg \<Longrightarrow> message_time msg = None"
  by (simp add: message_time_def split_colon_no_colon index_def parseInt_undefined)

subsection \<open>The clock in seconds, printed and parsed back\<close>

lemma digit_value_digit_char: "d < 10 \<Longrightarrow> digit_value (digit_char d) = Some d"
proof -
  assume "d < 10"
  then have "d \<in> {0,1,2,3,4,5,6,7,8,9}" by auto
  then show ?thesis
    by (auto simp: digit_value_def digit_char_def)
qed

lemma is_digit_digit_char: "d < 10 \<Longrightarrow> is_digit 10 (digit_char d)"
  by (simp add: is_digit_def digit_value_digit_char)

lemma digit_char_plain:
  "d < 10 \<Longrightarrow> \<not> is_space (digit_char d) \<and> digit_char d \<noteq> CHR ''-'' \<and> digit_char d \<noteq> CHR ''+''
     \<and> digit_char d \<noteq> CHR ''x'' \<and> digit_char d \<noteq> CHR ''X''"
proof -
  assume "d < 10"
  then have "d \<in> {0,1,2,3,4,5,6,7,8,9}" by auto
  then show ?thesis
    by (auto simp: is_space_def digit_char_def)
qed

lemma decimal_show_nat: "decimal (show_nat n)"
proof (induction n rule: show_nat.induct)
  case (1 n)
  show ?case
  proof (cases "n < 10")
    case True
    then show ?thesis by (subst show_nat.simps) (auto simp: decimal_def)
  next
    case False
    with 1 have "decimal (show_nat (n div 10))" by simp
    moreover have "n mod 10 < 10" by simp
    ultimately show ?thesis using False
      by (subst show_nat.simps) (auto simp: decimal_def intro: exI [of _ "n mod 10"])
  qed
qed

lemma radix_value_snoc: "radix_value R (s @ [c]) = radix_value R s * R + the (digit_value c)"
  by (simp add: radix_value_def)

lemma radix_value_show_nat: "radix_value 10 (show_nat n) = n"
proof (induction n rule: show_nat.induct)
  case (1 n)
  show ?case
  proof (cases "n < 10")
    case True
    then show ?thesis
      by (subst show_nat.simps) (simp add: radix_value_def digit_value_digit_char)
  next
    case False
    with 1 have "radix_value 10 (show_nat (n div 10)) = n div 10" by simp
    then show ?thesis using False
      by (subst show_nat.simps) (simp add: radix_value_snoc digit_value_digit_char)
  qed
qed

lemma parseInt_decimal:
  assumes "decimal s"
  shows "parseInt s = Some (int (radix_value 10 s))"
proof -
  from assms obtain c cs where s: "s = c # cs" by (cases s) (auto simp: decimal_def)
  from assms have all: "\<forall>c\<in>set s. \<exists>d<10. c = digit_char d" by (simp add: decimal_def)
  then have dig: "\<forall>c\<in>set s. is_digit 10 c" by (auto simp: is_digit_digit_char)
  from all s have c: "\<not> is_space c" "c \<noteq> CHR ''-''" "c \<noteq> CHR ''+''"
    using digit_char_plain by auto
  have nohex: "take 2 s \<noteq> ''0x'' \<and> take 2 s \<noteq> ''0X''"
  proof (cases cs)
    case Nil
    then show ?thesis by (simp add: s)
  next
    case (Cons c' cs')
    with all s have "c' \<noteq> CHR ''x''" "c' \<noteq> CHR ''X''" using digit_char_plain by auto
    then show ?thesis by (simp add: s Cons)
  qed
  have tw: "takeWhile (is_digit 10) s = s" using dig by (simp add: takeWhile_eq_all_conv)
  have d: "dropWhile is_space s = s" using c by (simp add: s)
  have h: "s \<noteq> []" "hd s \<noteq> CHR ''-''" "hd s \<noteq> CHR ''+''" using c by (simp_all add: s)
  show ?thesis using nohex
    by (simp add: parseInt_def Let_def d h tw)
qed

lemma parseInt_show_nat: "parseInt (show_nat n) = Some (int n)"
  by (simp add: parseInt_decimal decimal_show_nat radix_value_show_nat)

lemma show_nat_div10: "n \<ge> 10 \<Longrightarrow> show_nat n = show_nat (n div 10) @ [digit_char (n mod 10)]"
  by (subst show_nat.simps) simp

lemma show_nat_div1000:
  assumes "n \<ge> 1000"
  shows "\<exists>a b c. show_nat n = show_nat (n div 1000) @ [a, b, c]"
proof -
  have 1: "show_nat n = show_nat (n div 10) @ [digit_char (n mod 10)]"
    using assms by (simp add: show_nat_div10)
  have 2: "show_nat (n div 10) = show_nat (n div 10 div 10) @ [digit_char (n div 10 mod 10)]"
    using assms by (simp add: show_nat_div10)
  have 3: "show_nat (n div 10 div 10) = show_nat (n div 10 div 10 div 10) @ [digit_char (n div 10 div 10 mod 10)]"
    using assms by (simp add: show_nat_div10)
  have "n div 10 div 10 div 10 = n div 1000" by (simp add: div_mult2_eq [symmetric])
  with 1 2 3 show ?thesis by simp
qed

lemma seconds_string_div:
  assumes "now \<ge> 1000"
  shows "seconds_string now = show_nat (nat (now div 1000))"
proof -
  have n: "nat now \<ge> 1000" using assms by simp
  from show_nat_div1000 [OF n] obtain a b c where
    "show_nat (nat now) = show_nat (nat now div 1000) @ [a, b, c]" by blast
  moreover have "nat now div 1000 = nat (now div 1000)" using assms
    by (simp add: nat_div_distrib)
  ultimately show ?thesis using assms by (simp add: seconds_string_def show_int_def)
qed

lemma current_time_seconds:
  assumes "now \<ge> 1000"
  shows "parseInt (seconds_string now) = Some (now div 1000)"
  using assms by (simp add: seconds_string_div parseInt_show_nat)

lemma split_colon_append:
  "CHR '':'' \<notin> set a \<Longrightarrow> split_colon (a @ CHR '':'' # rest) = a # split_colon rest"
  by (induction a) (auto split: list.splits)

lemma decimal_no_colon: "decimal s \<Longrightarrow> CHR '':'' \<notin> set s"
proof
  assume d: "decimal s" and "CHR '':'' \<in> set s"
  then obtain k where "k < 10" "CHR '':'' = digit_char k" by (auto simp: decimal_def)
  then have "k \<in> {0,1,2,3,4,5,6,7,8,9}" by auto
  with \<open>CHR '':'' = digit_char k\<close> show False by (auto simp: digit_char_def)
qed

lemma message_time_of_challenge:
  assumes "CHR '':'' \<notin> set address" and "now \<ge> 1000"
    and "requestMessageOwnershipVerification now address = Resolved challenge"
  shows "message_time challenge = Some (now div 1000)"
proof -
  have c: "challenge = address @ '':'' @ seconds_string now @ '':starRegistry''"
    using assms(3) by (simp add: requestMessageOwnershipVerification_def)
  have "CHR '':'' \<notin> set (seconds_string now)"
    using assms(2) by (simp add: seconds_string_div decimal_no_colon decimal_show_nat)
  then have "split_colon (seconds_string now @ '':starRegistry'') = seconds_string now # split_colon ''starRegistry''"
    using split_colon_append [of "seconds_string now" "''starRegistry''"] by simp
  with assms(1) have "split_colon (address @ '':'' @ seconds_string now @ '':starRegistry'') =
      address # seconds_string now # split_colon ''starRegistry''"
    using split_colon_append [of address "seconds_string now @ '':starRegistry''"] by simp
  then show ?thesis using assms(2)
    by (simp add: c message_time_def index_def current_time_seconds)
qed

subsection \<open>Ledgers of a run: every call settles\<close>

lemma positions_push:
  assumes "positions self" and "Block.height b = height self + 1"
  shows "positions (push self b)"
  using assms by (auto simp: positions_def push_def nth_append)

lemma positions_has_predecessor:
  assumes "positions self"
  shows "list_all (has_predecessor self) (chain self)"
proof -
  have "has_predecessor self (chain self ! i)" if "i < length (chain self)" for i
    using that assms by (auto simp: positions_def has_predecessor_def index_def)
  then show ?thesis by (auto simp: list_all_iff in_set_conv_nth)
qed

lemma positions_assign_fields:
  assumes "positions self"
  shows "\<exists>b. assign_fields E now self blk = Some b \<and> Block.height b = height self + 1"
proof -
  have "getLatestBlock self \<noteq> None" if "height self \<ge> 0"
    using that assms by (cases "chain self") (auto simp: positions_def getLatestBlock_def index_def)
  then have "assign_fields E now self blk \<noteq> None"
    by (auto simp: assign_fields_def Let_def split: option.splits)
  then obtain b where "assign_fields E now self blk = Some b" by auto
  with assign_fields_fields [OF this] show ?thesis by simp
qed

lemma positions_addBlock_settles:
  assumes "positions self"
  shows "(\<exists>b. addBlock E now self blk = (Resolved b, push self b) \<and> positions (push self b)) \<or>
         (\<exists>errorLog. addBlock E now self blk = (Rejected (Violations errorLog), self))"
proof -
  from positions_assign_fields [OF assms] obtain b where
    b: "assign_fields E now self blk = Some b" "Block.height b = height self + 1" by blast
  then have p: "positions (push self b)" using assms by (simp add: positions_push)
  then have "validateChain E (push self b) \<noteq> Pending"
    by (simp add: validateChain_eq positions_has_predecessor)
  then show ?thesis using addBlock_cases [of E now self blk] b p
    by auto
qed

lemma positions_addBlock:
  assumes "positions self"
  shows "positions (snd (addBlock E now self blk))"
  using positions_addBlock_settles [OF assms, of E now blk] assms by auto

lemma positions_initializeChain:
  assumes "positions self"
  shows "positions (initializeChain E now self)"
  using assms by (simp add: initializeChain_def positions_addBlock)

lemma positions_submitStar:
  assumes "positions self"
  shows "positions (snd (submitStar E now now' self address msg signature star_data))"
  using assms by (simp add: submitStar_def Let_def positions_addBlock split: verdict.splits)

lemma reachable_positions:
  assumes "reachable E self"
  shows "positions self"
  using assms
proof (induction rule: reachable.induct)
  case created
  show ?case by (simp add: positions_def)
next
  case (initialized self now)
  from initialized.IH show ?case by (rule positions_initializeChain)
next
  case (added self now blk)
  from added.IH show ?case by (rule positions_addBlock)
next
  case (submitted self now now' address msg signature star_data)
  from submitted.IH show ?case by (rule positions_submitStar)
qed

lemma reachable_validateChain_settles:
  assumes "reachable E self"
  shows "validateChain E self =
     (if consistent E self then Resolved (Str ''The chain is valid, no error occurred'')
      else Resolved (Obj (violations_of E self)))"
  using positions_has_predecessor [OF reachable_positions [OF assms]]
  by (simp add: validateChain_eq)

lemma reachable_addBlock_settles:
  assumes "reachable E self"
  shows "(\<exists>b. addBlock E now self blk = (Resolved b, push self b)) \<or>
         (\<exists>errorLog. addBlock E now self blk = (Rejected (Violations errorLog), self))"
  using positions_addBlock_settles [OF reachable_positions [OF assms], of E now blk] by blast

lemma addBlock_rejected_unchanged:
  assumes "fst (addBlock E now self blk) = Rejected e"
  shows "snd (addBlock E now self blk) = self"
  using addBlock_cases [of E now self blk] assms by auto

subsection \<open>The placeholder entry of getStarsByWalletAddress\<close>

text \<open>For an address that is not the empty string the filter drops the placeholder.\<close>

lemma placeholder_dropped:
  assumes "getStarsByWalletAddress E self address = Resolved (Obj entries)"
    and "address \<noteq> []"
  shows "\<lparr>owner = JString [], star = JObject []\<rparr> \<notin> set entries"
proof
  assume "\<lparr>owner = JString [], star = JObject []\<rparr> \<in> set entries"
  moreover from assms(1) have "\<forall>e\<in>set entries. owner e = JString address"
    by (auto simp: getStarsByWalletAddress_def Let_def split: sum.splits if_splits)
  ultimately have "JString [] = JString address" by fastforce
  with assms(2) show False by simp
qed

subsection \<open>Values of the example instance\<close>

lemmas example_defs = example_env_def example_stringify_def example_verify_def

lemmas example_blocks = example_genesis_def stale_draft_def stale_pushed_def fresh_pushed_def
  changed_block_def next_block_def changed_ledger_def

lemmas eval_defs = addBlock_alone assign_fields_def push_def pop_def validateChain_def
  validateChain_callback_def validate_def getLatestBlock_def index_def Let_def
  seconds_string_def show_int_def show_nat.simps digit_char_def newBlock_def

lemma ex_genesis:
  "newBlockchain example_env 5000 =
     \<lparr>chain = [\<lparr>hash = Some ''#null,payload,5'', height = 0, body = ''payload'', time = ''5'',
                previousBlockHash = None\<rparr>], height = 0\<rparr>"
  by (simp add: newBlockchain_eq example_defs seconds_string_def show_int_def show_nat.simps
      digit_char_def)

text \<open>
  A run with overlapping calls: the constructor, then a call with the block that has a hash
  already set and a call with a new block, both begun before the first goes on. After the
  first has gone on, its block is in the chain and the second call is still suspended.
\<close>

lemma overlapping_example:
  "overlapping example_env
     (\<lparr>chain = [example_genesis, stale_pushed], height = 1\<rparr>,
      [(fresh_pushed, Obj [not_valid stale_pushed])])"
proof -
  note defs = example_blocks example_defs addBlock_begin_def addBlock_resume_def
      assign_fields_def push_def pop_def validateChain_def validateChain_callback_def
      validate_def getLatestBlock_def index_def Let_def newBlock_def
      seconds_string_def show_int_def show_nat.simps digit_char_def
  have "overlapping example_env
      (\<lparr>chain = [example_genesis], height = 0\<rparr>,
       [(example_genesis, Str ''The chain is valid, no error occurred'')])"
    using overlapping.begun [OF overlapping.created, of example_env 5000
        "newBlock example_env (JObject [(''data'', JString ''Genesis Block'')])"]
    by (simp add: defs)
  from overlapping.resumed [of example_env _ "[]" _ _ "[]", simplified, OF this]
  have "overlapping example_env (\<lparr>chain = [example_genesis], height = 0\<rparr>, [])"
    by (simp add: defs)
  from overlapping.begun [OF this, of 6000 stale_draft]
  have "overlapping example_env
      (\<lparr>chain = [example_genesis, stale_pushed], height = 1\<rparr>,
       [(stale_pushed, Obj [not_valid stale_pushed])])"
    by (simp add: defs)
  from overlapping.begun [OF this, of 6000 "newBlock example_env (JString ''b'')"]
  have "overlapping example_env
      (\<lparr>chain = [example_genesis, stale_pushed, fresh_pushed], height = 2\<rparr>,
       [(stale_pushed, Obj [not_valid stale_pushed]),
        (fresh_pushed, Obj [not_valid stale_pushed])])"
    by (simp add: defs)
  from overlapping.resumed [of example_env _ "[]", simplified, OF this]
  show ?thesis
    by (simp add: defs)
qed

text \<open>
  The ledger with the changed body comes from two appends on the ledger of the constructor,
  the body of the block at height 1 being \<open>x\<close> when it was appended.
\<close>

lemma changed_ledger_origin:
  "appends example_env (newBlockchain example_env 5000)
     [(6000, \<lparr>hash = None, height = 0, body = ''x'', time = [], previousBlockHash = None\<rparr>),
      (7000, \<lparr>hash = None, height = 0, body = ''y'', time = [], previousBlockHash = None\<rparr>)] =
   Some (changed_ledger\<lparr>chain := (chain changed_ledger)[1 := changed_block\<lparr>body := ''x''\<rparr>]\<rparr>)"
  unfolding ex_genesis by (simp add: example_defs eval_defs example_blocks)

lemma seconds_1700000300999: "parseInt (seconds_string 1700000300999) = Some 1700000300"
  by (simp add: seconds_string_def show_int_def show_nat.simps digit_char_def
      parseInt_def is_space_def is_digit_def digit_value_def radix_value_def)

lemma seconds_1700000299999: "parseInt (seconds_string 1700000299999) = Some 1700000299"
  by (simp add: seconds_string_def show_int_def show_nat.simps digit_char_def
      parseInt_def is_space_def is_digit_def digit_value_def radix_value_def)

lemma message_time_example: "message_time ''addrA:1700000000:starRegistry'' = Some 1700000000"
  by (simp add: message_time_def index_def parseInt_def is_space_def is_digit_def
      digit_value_def radix_value_def)

section \<open>The claims\<close>

text \<open>
  C1. The claim has every append whose validation reports a violation remove the block it
  just added and leave the ledger as it was before. \<open>_addBlock\<close> does so when it runs alone
  (\<open>addBlock_alone_rollback\<close>). It suspends between the push and the pop, though, and the
  pop removes whatever block is last by then. Here two calls overlap on the ledger of the
  constructor: the first with a block that arrives with a hash already set, which fails its
  own validation, the second with a block as the constructor of \<open>Block\<close> builds it. When the
  first call goes on, it pops the block of the second call and is rejected, and its own
  block is still in the chain, at height 1. The second call, whose validation saw that
  block, then pops it and is rejected too.
\<close>

theorem overlapping_rollback_pops_other_block:
  "newBlockchain example_env 5000 = \<lparr>chain = [example_genesis], height = 0\<rparr> \<and>
   addBlock_begin example_env 6000 \<lparr>chain = [example_genesis], height = 0\<rparr> stale_draft =
     (Some (stale_pushed, Resolved (Obj [not_valid stale_pushed])),
      \<lparr>chain = [example_genesis, stale_pushed], height = 1\<rparr>) \<and>
   addBlock_begin example_env 6000 \<lparr>chain = [example_genesis, stale_pushed], height = 1\<rparr>
       (newBlock example_env (JString ''b'')) =
     (Some (fresh_pushed, Resolved (Obj [not_valid stale_pushed])),
      \<lparr>chain = [example_genesis, stale_pushed, fresh_pushed], height = 2\<rparr>) \<and>
   addBlock_resume stale_pushed (Obj [not_valid stale_pushed])
       \<lparr>chain = [example_genesis, stale_pushed, fresh_pushed], height = 2\<rparr> =
     (Rejected (Violations [not_valid stale_pushed]),
      \<lparr>chain = [example_genesis, stale_pushed], height = 1\<rparr>) \<and>
   addBlock_resume fresh_pushed (Obj [not_valid stale_pushed])
       \<lparr>chain = [example_genesis, stale_pushed], height = 1\<rparr> =
     (Rejected (Violations [not_valid stale_pushed]),
      \<lparr>chain = [example_genesis], height = 0\<rparr>)"
  unfolding ex_genesis
  by (simp add: example_blocks example_defs addBlock_begin_def addBlock_resume_def
      assign_fields_def push_def pop_def validateChain_def validateChain_callback_def
      validate_def getLatestBlock_def index_def Let_def newBlock_def
      seconds_string_def show_int_def show_nat.simps digit_char_def)

text \<open>
  C2. The ledger that the constructor builds has height 0, its only block has no previous
  hash, and \<open>validateChain\<close> reports no violation on it. After any sequence of calls of
  \<open>_addBlock\<close> on that ledger that were all resolved, the height is the number of calls and
  \<open>validateChain\<close> reports no violation.
\<close>

theorem fresh_and_appended:
  "height (newBlockchain E now) = 0 \<and>
   (\<exists>g. chain (newBlockchain E now) = [g] \<and> previousBlockHash g = None) \<and>
   validateChain E (newBlockchain E now) =
     Resolved (Str ''The chain is valid, no error occurred'') \<and>
   (\<forall>reqs self. appends E (newBlockchain E now) reqs = Some self \<longrightarrow>
      height self = int (length reqs) \<and>
      validateChain E self = Resolved (Str ''The chain is valid, no error occurred''))"
proof -
  have h: "height (newBlockchain E now) = 0" by (simp add: newBlockchain_eq)
  moreover have "\<exists>g. chain (newBlockchain E now) = [g] \<and> previousBlockHash g = None"
    by (simp add: newBlockchain_eq)
  moreover note v = validateChain_newBlockchain [of E now]
  moreover have "height self = int (length reqs) \<and>
      validateChain E self = Resolved (Str ''The chain is valid, no error occurred'')"
    if "appends E (newBlockchain E now) reqs = Some self" for reqs self
    using appends_height_valid [OF that v] h by simp
  ultimately show ?thesis using v by blast
qed

theorem fresh_and_appended_witness:
  "appends example_env (newBlockchain example_env 5000)
     [(6000, newBlock example_env (JString ''a'')),
      (7000, newBlock example_env (JString ''b''))] \<noteq> None \<and>
   height (the (appends example_env (newBlockchain example_env 5000)
     [(6000, newBlock example_env (JString ''a'')),
      (7000, newBlock example_env (JString ''b''))])) = 2"
proof -
  have "\<exists>self. appends example_env (newBlockchain example_env 5000)
     [(6000, newBlock example_env (JString ''a'')),
      (7000, newBlock example_env (JString ''b''))] = Some self"
    unfolding ex_genesis
    by (simp add: example_defs eval_defs)
  then obtain self where s: "appends example_env (newBlockchain example_env 5000)
     [(6000, newBlock example_env (JString ''a'')),
      (7000, newBlock example_env (JString ''b''))] = Some self" ..
  with fresh_and_appended [of example_env 5000] have
    "height self = int (length [(6000 :: int, newBlock example_env (JString ''a'')),
       (7000, newBlock example_env (JString ''b''))])"
    by blast
  with s show ?thesis by simp
qed



text \<open>
  C4, with the links as the code compares them. In a ledger where every block of height above
  0 has a block at the index its height points back to, as in every ledger of a run
  (\<open>reachable_validateChain_settles\<close>), \<open>validateChain\<close> resolves. Its result is empty, the
  message that carries no violation, exactly when the ledger is fully consistent in the
  spec's sense: every link matches the recomputed hash and every block validates itself.
  Otherwise the result is the list of every hash mismatch and of every link that is broken
  against the hash stored in the block at height-1, in the order of the chain, each with the
  height of its block in its message and the block itself, and that list is not empty.
\<close>

theorem validateChain_reports_all:
  assumes "list_all (has_predecessor self) (chain self)"
  shows "validateChain E self =
           (if consistent E self then Resolved (Str ''The chain is valid, no error occurred'')
            else Resolved (Obj (violations_of E self))) \<and>
         (\<exists>r. validateChain E self = Resolved r \<and> reported r = violations_of E self \<and>
              (reported r = [] \<longleftrightarrow> consistent E self))"
proof -
  have eq: "validateChain E self =
           (if consistent E self then Resolved (Str ''The chain is valid, no error occurred'')
            else Resolved (Obj (violations_of E self)))"
    using assms by (simp add: validateChain_eq)
  show ?thesis
  proof (cases "consistent E self")
    case True
    with eq violations_of_empty [of E self] show ?thesis by (simp add: reported_def)
  next
    case False
    with eq violations_of_empty [of E self] show ?thesis by (simp add: reported_def)
  qed
qed

text \<open>
  An instance with the stored hash at height 1 replaced: the hash mismatch at height 1 and
  the link at height 2 that it breaks are both listed.
\<close>

theorem validateChain_reports_all_witness:
  "validateChain example_env
     \<lparr>chain = [example_genesis,
              \<lparr>hash = Some ''tampered'', height = 1, body = ''x'', time = ''6'',
                previousBlockHash = Some ''#null,payload,5''\<rparr>,
              next_block],
      height = 2\<rparr> =
   Resolved (Obj
     [not_valid \<lparr>hash = Some ''tampered'', height = 1, body = ''x'', time = ''6'',
                previousBlockHash = Some ''#null,payload,5''\<rparr>,
      broken_link next_block])"
proof -
  let ?self = "\<lparr>chain = [example_genesis,
              \<lparr>hash = Some ''tampered'', height = 1, body = ''x'', time = ''6'',
                previousBlockHash = Some ''#null,payload,5''\<rparr>,
              next_block],
      height = 2\<rparr>"
  have p: "list_all (has_predecessor ?self) (chain ?self)"
    by (simp add: has_predecessor_def index_def example_blocks)
  show ?thesis
    unfolding conjunct1 [OF validateChain_reports_all [OF p, of example_env]]
    by (simp add: consistent_def violations_of_def link_matches_def stored_link_matches_def
        recomputed_hash_def validate_def index_def example_defs example_blocks)
qed

text \<open>
  The claim as stated has every broken link in the list, a link being compared with the
  recomputed hash of the block at height-1. On the ledger whose block at height 1 had its
  body changed after it was committed, the recomputed hash of that block is no longer the
  previous hash that the block at height 2 stores, so the claim's violations are the hash
  mismatch at height 1 and the broken link at height 2. \<open>validateChain\<close> compares with the
  hash that the block at height 1 still stores, and resolves with the hash mismatch alone.
\<close>

theorem validateChain_misses_recomputed_link:
  "validateChain example_env changed_ledger = Resolved (Obj [not_valid changed_block]) \<and>
   violations_claimed example_env changed_ledger =
     [not_valid changed_block, broken_link next_block]"
  by (simp add: validateChain_eq has_predecessor_def consistent_def violations_of_def
      violations_claimed_def link_matches_def stored_link_matches_def recomputed_hash_def
      validate_def index_def example_defs example_blocks)

text \<open>
  Outside the ledgers of the theorem of C4, where some block of height above 0 has no block
  at the index its height points back to, reading the hash of \<open>undefined\<close> throws inside the
  executor of \<open>validateChain\<close> and its promise is never settled (\<open>validateChain_eq\<close>). No run
  of the class produces such a ledger.
\<close>

lemma validateChain_unsettled:
  "validateChain example_env
     \<lparr>chain = [\<lparr>hash = None, height = 5, body = [], time = [], previousBlockHash = None\<rparr>],
      height = 0\<rparr> = Pending"
  by (simp add: validateChain_def validateChain_callback_def index_def Let_def)

text \<open>
  C5. The claim has \<open>getStarsByWalletAddress\<close> never return an entry that comes from the
  genesis block. The code maps the genesis block to an entry with the empty string as owner
  and filters by owner afterwards, so for the empty address that entry is returned: here on
  the ledger as the constructor builds it. For any other address the filter drops it
  (\<open>placeholder_dropped\<close>).
\<close>

theorem genesis_entry_returned:
  "getStarsByWalletAddress E (newBlockchain E now) [] =
     Resolved (Obj [\<lparr>owner = JString [], star = JObject []\<rparr>])"
  by (simp add: newBlockchain_eq getStarsByWalletAddress_def getStars_callback_def)

text \<open>
  C6. When the clock in whole seconds and the number parsed from the second field of the
  message are at least 300 apart, \<open>submitStar\<close> rejects with the message that the time has
  expired, and the ledger is unchanged. The clock in whole seconds is \<open>now div 1000\<close> from
  the first second of 1970 on (\<open>current_time_seconds\<close>), and the second field of a challenge
  that \<open>requestMessageOwnershipVerification\<close> issued parses back to the second of its issue
  (\<open>message_time_of_challenge\<close>).
\<close>

theorem submitStar_expired:
  assumes "parseInt (seconds_string now) = Some currentTime"
    and "message_time msg = Some t"
    and "currentTime - t \<ge> 300"
  shows "submitStar E now now' self address msg signature star_data =
     (Rejected (Message
        ''The time for validate the signature has expired, try to get a new verification message''),
      self)"
  using assms by (simp add: submitStar_def elapsed_ge_300_def)

theorem submitStar_expired_witness:
  "submitStar example_env 1700000300999 1700000301000 (newBlockchain example_env 5000)
     ''addrA'' ''addrA:1700000000:starRegistry'' ''signed by addrA'' JNull =
   (Rejected (Message
        ''The time for validate the signature has expired, try to get a new verification message''),
      newBlockchain example_env 5000)"
  by (rule submitStar_expired [OF seconds_1700000300999 message_time_example]) simp

text \<open>
  C7. When the freshness check lets the call through and \<open>bitcoinMessage.verify\<close> does not
  return true, \<open>submitStar\<close> rejects and the ledger, its height included, is unchanged: with
  the message that the validation failed when \<open>verify\<close> returned false, with the message of
  the error when \<open>verify\<close> threw one.
\<close>

theorem submitStar_bad_signature:
  assumes "\<not> elapsed_ge_300 (parseInt (seconds_string now)) (message_time msg)"
    and "verify E msg address signature \<noteq> Returns True"
  shows "submitStar E now now' self address msg signature star_data =
     (Rejected (Message
        (case verify E msg address signature of
           Returns ok \<Rightarrow> ''The message validation is failed! Validate your input and try again''
         | Throws m \<Rightarrow> m)),
      self)"
  using assms by (simp add: submitStar_def split: verdict.splits)

theorem submitStar_bad_signature_witness:
  "submitStar example_env 1700000299999 1700000300000 (newBlockchain example_env 5000)
     ''addrA'' ''addrA:1700000000:starRegistry'' ''signed by addrB'' JNull =
   (Rejected (Message ''The message validation is failed! Validate your input and try again''),
      newBlockchain example_env 5000) \<and>
   submitStar example_env 1700000299999 1700000300000 (newBlockchain example_env 5000)
     ''addrA'' ''addrA:1700000000:starRegistry'' ''garbage'' JNull =
   (Rejected (Message ''Invalid signature length''), newBlockchain example_env 5000)"
  using submitStar_bad_signature [of 1700000299999 "''addrA:1700000000:starRegistry''" example_env
      "''addrA''" "''signed by addrB''" 1700000300000 "newBlockchain example_env 5000" JNull]
    submitStar_bad_signature [of 1700000299999 "''addrA:1700000000:starRegistry''" example_env
      "''addrA''" "''garbage''" 1700000300000 "newBlockchain example_env 5000" JNull]
  by (simp add: seconds_1700000299999 message_time_example elapsed_ge_300_def example_defs)

text \<open>
  C8, as the code has it. For a hash that no block of the chain stores, \<open>getBlockByHash\<close>
  resolves with the string "There's no block with this hash", and for a height that no block
  of the chain has, \<open>getBlockByHeight\<close> resolves with the string "No block at this height".
  For a hash or a height that some block has, the first such block of the chain is
  returned.
\<close>

theorem lookups:
  "((\<forall>b\<in>set (chain self). hash b \<noteq> Some h) \<longrightarrow>
      getBlockByHash self h = Resolved (Str ''There's no block with this hash'')) \<and>
   ((\<exists>b\<in>set (chain self). hash b = Some h) \<longrightarrow>
      (\<exists>i<length (chain self).
         getBlockByHash self h = Resolved (Obj (chain self ! i)) \<and>
         hash (chain self ! i) = Some h \<and> (\<forall>j<i. hash (chain self ! j) \<noteq> Some h))) \<and>
   ((\<forall>b\<in>set (chain self). Block.height b \<noteq> n) \<longrightarrow>
      getBlockByHeight self n = Resolved (Str ''No block at this height'')) \<and>
   ((\<exists>b\<in>set (chain self). Block.height b = n) \<longrightarrow>
      (\<exists>i<length (chain self).
         getBlockByHeight self n = Resolved (Obj (chain self ! i)) \<and>
         Block.height (chain self ! i) = n \<and> (\<forall>j<i. Block.height (chain self ! j) \<noteq> n)))"
proof (intro conjI impI)
  assume "\<forall>b\<in>set (chain self). hash b \<noteq> Some h"
  then have "List.find (\<lambda>b. hash b = Some h) (chain self) = None"
    by (simp add: find_None_iff)
  then show "getBlockByHash self h = Resolved (Str ''There's no block with this hash'')"
    by (simp add: getBlockByHash_def index_filter_0)
next
  assume "\<exists>b\<in>set (chain self). hash b = Some h"
  then obtain b where f: "List.find (\<lambda>b. hash b = Some h) (chain self) = Some b"
    by (cases "List.find (\<lambda>b. hash b = Some h) (chain self)") (auto simp: find_None_iff)
  then obtain i where "i < length (chain self)" "hash (chain self ! i) = Some h"
    "b = chain self ! i" "\<forall>j<i. hash (chain self ! j) \<noteq> Some h"
    by (auto simp: find_Some_iff)
  with f show "\<exists>i<length (chain self).
         getBlockByHash self h = Resolved (Obj (chain self ! i)) \<and>
         hash (chain self ! i) = Some h \<and> (\<forall>j<i. hash (chain self ! j) \<noteq> Some h)"
    by (auto simp: getBlockByHash_def index_filter_0)
next
  assume "\<forall>b\<in>set (chain self). Block.height b \<noteq> n"
  then have "List.find (\<lambda>b. Block.height b = n) (chain self) = None"
    by (simp add: find_None_iff)
  then show "getBlockByHeight self n = Resolved (Str ''No block at this height'')"
    by (simp add: getBlockByHeight_def index_filter_0)
next
  assume "\<exists>b\<in>set (chain self). Block.height b = n"
  then obtain b where f: "List.find (\<lambda>b. Block.height b = n) (chain self) = Some b"
    by (cases "List.find (\<lambda>b. Block.height b = n) (chain self)") (auto simp: find_None_iff)
  then obtain i where "i < length (chain self)" "Block.height (chain self ! i) = n"
    "b = chain self ! i" "\<forall>j<i. Block.height (chain self ! j) \<noteq> n"
    by (auto simp: find_Some_iff)
  with f show "\<exists>i<length (chain self).
         getBlockByHeight self n = Resolved (Obj (chain self ! i)) \<and>
         Block.height (chain self ! i) = n \<and> (\<forall>j<i. Block.height (chain self ! j) \<noteq> n)"
    by (auto simp: getBlockByHeight_def index_filter_0)
qed

theorem lookups_witness:
  "getBlockByHash (newBlockchain example_env 5000) ''0000'' =
     Resolved (Str ''There's no block with this hash'') \<and>
   getBlockByHeight (newBlockchain example_env 5000) 7 =
     Resolved (Str ''No block at this height'') \<and>
   getBlockByHash (newBlockchain example_env 5000) ''#null,payload,5'' =
     Resolved (Obj (chain (newBlockchain example_env 5000) ! 0)) \<and>
   getBlockByHeight (newBlockchain example_env 5000) 0 =
     Resolved (Obj (chain (newBlockchain example_env 5000) ! 0))"
  using lookups [of "newBlockchain example_env 5000" "''0000''" 7]
    lookups [of "newBlockchain example_env 5000" "''#null,payload,5''" 0]
  unfolding ex_genesis by simp

text \<open>
  The claim as stated has a miss answered by a result that is not a string. On the ledger
  as the constructor builds it, a miss is answered by a string, by hash and by height.
\<close>

theorem lookups_counterexample:
  "getBlockByHash (newBlockchain example_env 5000) ''0000'' =
     Resolved (Str ''There's no block with this hash'') \<and>
   getBlockByHeight (newBlockchain example_env 5000) 7 =
     Resolved (Str ''No block at this height'')"
  unfolding ex_genesis by (simp add: getBlockByHash_def getBlockByHeight_def index_def)

text \<open>
  C9. In every ledger that a run of the class reaches, the height field is the number of
  blocks of the chain minus one.
\<close>

theorem height_is_length_minus_one:
  assumes "reachable E self"
  shows "height self = int (length (chain self)) - 1"
  using assms
proof (induction rule: reachable.induct)
  case created
  show ?case by simp
next
  case (initialized self now)
  from initialized.IH show ?case by (rule initializeChain_height)
next
  case (added self now blk)
  from added.IH show ?case by (rule addBlock_height)
next
  case (submitted self now now' address msg signature star_data)
  from submitted.IH show ?case by (rule submitStar_height)
qed

theorem height_is_length_minus_one_witness:
  "reachable example_env
     (snd (addBlock example_env 6000 (newBlockchain example_env 5000)
        (newBlock example_env (JString ''a'')))) \<and>
   height (snd (addBlock example_env 6000 (newBlockchain example_env 5000)
        (newBlock example_env (JString ''a'')))) = 1 \<and>
   length (chain (snd (addBlock example_env 6000 (newBlockchain example_env 5000)
        (newBlock example_env (JString ''a''))))) = 2"
proof -
  let ?s = "snd (addBlock example_env 6000 (newBlockchain example_env 5000)
        (newBlock example_env (JString ''a'')))"
  have r: "reachable example_env ?s"
    unfolding newBlockchain_def by (intro reachable.added reachable.initialized reachable.created)
  have l: "length (chain ?s) = 2"
    unfolding ex_genesis by (simp add: example_defs eval_defs)
  from height_is_length_minus_one [OF r] l r show ?thesis by simp
qed

text \<open>
  C10. When the second field of the message does not parse as an integer, as for a message
  without a colon (\<open>message_time_no_colon\<close>), the comparison of the freshness check is
  false, and \<open>submitStar\<close> ends as the verification of the signature decides: it adds the
  block when \<open>verify\<close> returns true, and rejects as in C7 otherwise.
\<close>

theorem submitStar_NaN:
  assumes "message_time msg = None"
  shows "\<not> elapsed_ge_300 (parseInt (seconds_string now)) (message_time msg) \<and>
    submitStar E now now' self address msg signature star_data =
     (case verify E msg address signature of
        Returns ok \<Rightarrow>
          if ok then
            addBlock E now' self
              (newBlock E (JObject [(''data'',
                 JObject [(''address'', JString address), (''message'', JString msg),
                          (''star'', star_data)])]))
          else
            (Rejected (Message
               ''The message validation is failed! Validate your input and try again''),
             self)
      | Throws m \<Rightarrow> (Rejected (Message m), self))"
  using assms by (simp add: submitStar_def elapsed_ge_300_def split: option.splits)

theorem submitStar_NaN_witness:
  "message_time ''no colon in here'' = None \<and>
   submitStar example_env 1700000300999 1700000301000 (newBlockchain example_env 5000)
     ''addrA'' ''no colon in here'' ''signed by addrB'' JNull =
   (Rejected (Message ''The message validation is failed! Validate your input and try again''),
      newBlockchain example_env 5000)"
proof -
  have n: "message_time ''no colon in here'' = None"
    by (rule message_time_no_colon) simp
  from submitStar_NaN [OF n, of 1700000300999 example_env 1700000301000
      "newBlockchain example_env 5000" "''addrA''" "''signed by addrB''" JNull] n
  show ?thesis by (simp add: example_defs)
qed

end
